theory Spec2Isabelle
  imports Main
begin

section \<open>Forge automation API: the \<open>/execute\<close> endpoint of server.py\<close>

text \<open>
  The program is one FastAPI handler, \<open>execute_task\<close>, behind a pydantic request
  class \<open>ExecuteRequest\<close> with one validator, \<open>validate_task\<close>. The embedding
  follows the source top to bottom: Python strings, the three classes, the validator,
  the construction of the request from a JSON body, the two effects of the handler
  (the logger and the wall clock) as explicit state, the body of the \<open>try\<close> block,
  the handler with its \<open>except\<close> branch, and the route.
\<close>

subsection \<open>Python strings\<close>

text \<open>
  A Python \<open>str\<close> is a sequence of Unicode code points, so it is a list of naturals
  here; \<open>lit\<close> turns an ASCII literal of the source into that list.
\<close>

type_synonym pystr = "nat list"

definition lit :: "string \<Rightarrow> pystr" where
  "lit s = map of_char s"

text \<open>
  \<open>str.isspace\<close> on one code point: the characters CPython treats as whitespace, which
  are the ones \<open>str.strip()\<close> without argument removes. In order: U+0009..U+000D,
  U+001C..U+0020, U+0085, U+00A0, U+1680, U+2000..U+200A, U+2028, U+2029, U+202F,
  U+205F, U+3000.
\<close>

definition isspace :: "nat \<Rightarrow> bool" where
  "isspace c \<longleftrightarrow>
     (9 \<le> c \<and> c \<le> 13) \<or> (28 \<le> c \<and> c \<le> 32) \<or> c = 133 \<or> c = 160 \<or> c = 5760 \<or>
     (8192 \<le> c \<and> c \<le> 8202) \<or> c = 8232 \<or> c = 8233 \<or> c = 8239 \<or> c = 8287 \<or>
     c = 12288"

definition lstrip :: "pystr \<Rightarrow> pystr" where
  "lstrip s = dropWhile isspace s"

definition rstrip :: "pystr \<Rightarrow> pystr" where
  "rstrip s = rev (dropWhile isspace (rev s))"

definition strip :: "pystr \<Rightarrow> pystr" where
  "strip s = lstrip (rstrip s)"

subsection \<open>Values, exceptions and HTTP errors\<close>

text \<open>
  The values stored in the two dictionaries of the source (\<open>result_payload\<close> and the
  \<open>extra\<close> of a log call) are strings and lists of strings. A dictionary is an
  association list in insertion order, read with \<open>map_of\<close>.
\<close>

datatype pyval = PyStr pystr | PyList "pystr list"

type_synonym pydict = "(pystr \<times> pyval) list"

text \<open>
  An exception carries the text that \<open>str(exc)\<close> returns. \<open>ValueError\<close> is the one the
  validator raises; \<open>Exception\<close> stands for any other exception the clause
  \<open>except Exception\<close> catches.
\<close>

datatype py_exception = ValueError pystr | Exception pystr

fun str_exc :: "py_exception \<Rightarrow> pystr" where
  "str_exc (ValueError m) = m"
| "str_exc (Exception m) = m"

text \<open>
  What the caller receives instead of a response: pydantic's \<open>ValidationError\<close> with
  one entry per rejected field (the field is missing, or its validator raised), or the
  \<open>HTTPException\<close> of the handler with its status code and detail.
\<close>

datatype field_error = Missing | Raised py_exception

datatype http_error =
  ValidationError "(pystr \<times> field_error) list" | HTTPException nat pystr

subsection \<open>The three classes\<close>

text \<open>
  The fields keep the names of the source behind a prefix for their class, since
  \<open>task\<close> and \<open>status\<close> each belong to two classes. A \<open>datetime\<close> is a number of
  microseconds, ordered as naive datetimes are.
\<close>

type_synonym datetime = int

record ExecuteRequest =
  req_task :: pystr
  req_model :: pystr
  req_tools :: "pystr list"

record Step =
  step_id :: int
  step_action :: pystr
  step_status :: pystr
  step_detail :: "pystr option"

record ExecuteResponse =
  resp_task :: pystr
  resp_status :: pystr
  resp_mode :: pystr
  resp_message :: pystr
  resp_steps :: "Step list"
  resp_data :: pydict
  resp_started_at :: datetime
  resp_completed_at :: datetime

subsection \<open>Validation and construction of the request\<close>

text \<open>
  \<open>validate_task\<close>: \<open>if not value.strip(): raise ValueError(...)\<close>, else
  \<open>return value\<close>. An empty string is the only falsy one.
\<close>

definition validate_task :: "pystr \<Rightarrow> py_exception + pystr" where
  "validate_task v =
     (if strip v = [] then Inl (ValueError (lit ''Task description cannot be empty.''))
      else Inr v)"

text \<open>
  The JSON body of a request, after the structural check of the types: each field is
  present with a value of its declared type, or absent (\<open>None\<close>).
\<close>

record request_body =
  body_task :: "pystr option"
  body_model :: "pystr option"
  body_tools :: "pystr list option"

text \<open>
  Construction of an \<open>ExecuteRequest\<close> from a body, as the field declarations say:
  \<open>task\<close> is required (\<open>Field(...)\<close>) and goes through \<open>validate_task\<close>, whose
  \<open>ValueError\<close> becomes a \<open>ValidationError\<close> on the field; \<open>model\<close> defaults to
  \<open>"claude"\<close> and \<open>tools\<close> to a fresh empty list.
\<close>

definition new_ExecuteRequest :: "request_body \<Rightarrow> http_error + ExecuteRequest" where
  "new_ExecuteRequest b =
     (case body_task b of
        None \<Rightarrow> Inl (ValidationError [(lit ''task'', Missing)])
      | Some v \<Rightarrow>
          (case validate_task v of
             Inl e \<Rightarrow> Inl (ValidationError [(lit ''task'', Raised e)])
           | Inr t \<Rightarrow>
               Inr \<lparr>req_task = t,
                    req_model = (case body_model b of None \<Rightarrow> lit ''claude'' | Some m \<Rightarrow> m),
                    req_tools = (case body_tools b of None \<Rightarrow> [] | Some ts \<Rightarrow> ts)\<rparr>))"

subsection \<open>The effects of the handler: logger and wall clock\<close>

text \<open>
  The handler calls the logger and reads the wall clock twice. Both are state outside
  the handler: \<open>wall w n\<close> is what read number \<open>n\<close> of \<open>datetime.utcnow()\<close> returns,
  \<open>reads w\<close> counts the reads made so far, and \<open>log w\<close> holds the calls made to the
  logger, the latest last. Nothing is assumed of \<open>wall\<close>: the system time is not a
  monotonic clock.
\<close>

datatype log_level = INFO | ERROR

record log_call =
  log_level :: log_level
  log_msg :: pystr
  log_extra :: pydict

record world =
  wall :: "nat \<Rightarrow> datetime"
  reads :: nat
  log :: "log_call list"

definition utcnow :: "world \<Rightarrow> datetime \<times> world" where
  "utcnow w = (wall w (reads w), w\<lparr>reads := Suc (reads w)\<rparr>)"

definition logger_info :: "pystr \<Rightarrow> pydict \<Rightarrow> world \<Rightarrow> world" where
  "logger_info m extra w =
     w\<lparr>log := log w @ [\<lparr>log_level = INFO, log_msg = m, log_extra = extra\<rparr>]\<rparr>"

definition logger_exception :: "pystr \<Rightarrow> world \<Rightarrow> world" where
  "logger_exception m w =
     w\<lparr>log := log w @ [\<lparr>log_level = ERROR, log_msg = m, log_extra = []\<rparr>]\<rparr>"

subsection \<open>The handler\<close>

text \<open>
  The body of the \<open>try\<close> block: the five steps, the payload, the message and the
  status. It returns its four local variables, or the exception it raised.
\<close>

type_synonym try_result = "Step list \<times> pydict \<times> pystr \<times> pystr"

definition try_body :: "ExecuteRequest \<Rightarrow> py_exception + try_result" where
  "try_body request =
     (let steps =
            [\<lparr>step_id = 1, step_action = lit ''Initializing agent'',
              step_status = lit ''completed'', step_detail = Some (lit ''Environment verified.'')\<rparr>,
             \<lparr>step_id = 2, step_action = lit ''Analyzing task'',
              step_status = lit ''completed'', step_detail = Some (lit ''Task intent classified.'')\<rparr>,
             \<lparr>step_id = 3, step_action = lit ''Executing actions'',
              step_status = lit ''completed'',
              step_detail = Some (lit ''Simulated agent actions executed.'')\<rparr>,
             \<lparr>step_id = 4, step_action = lit ''Gathering results'',
              step_status = lit ''completed'',
              step_detail = Some (lit ''Compiled structured findings.'')\<rparr>,
             \<lparr>step_id = 5, step_action = lit ''Finalizing output'',
              step_status = lit ''completed'',
              step_detail = Some (lit ''Generated completion payload.'')\<rparr>];
          result_payload =
            [(lit ''summary'', PyStr (lit ''Task processed successfully in stub backend.'')),
             (lit ''model'', PyStr (req_model request)),
             (lit ''tools_used'', PyList (req_tools request))];
          message = lit ''Execution completed without errors.'';
          status = lit ''completed''
      in Inr (steps, result_payload, message, status))"

text \<open>
  The handler around a \<open>try\<close> body: the log call, the first clock read, the body, and
  then either the \<open>except\<close> branch (log the failure, raise \<open>HTTPException\<close> with status
  500 and \<open>str(exc)\<close> as detail) or the second clock read and the response.
  \<open>execute_task\<close> is this handler with the body of the source.
\<close>

definition execute_task_with ::
  "(ExecuteRequest \<Rightarrow> py_exception + try_result) \<Rightarrow> world \<Rightarrow> ExecuteRequest \<Rightarrow>
     (http_error + ExecuteResponse) \<times> world" where
  "execute_task_with body w request =
     (let w1 = logger_info (lit ''Received task request'')
                 [(lit ''task'', PyStr (req_task request)),
                  (lit ''model'', PyStr (req_model request)),
                  (lit ''tools'', PyList (req_tools request))] w;
          (started_at, w2) = utcnow w1
      in case body request of
           Inl exc \<Rightarrow>
             (Inl (HTTPException 500 (str_exc exc)),
              logger_exception (lit ''Task execution failed'') w2)
         | Inr (steps, result_payload, message, status) \<Rightarrow>
             (let (completed_at, w3) = utcnow w2
              in (Inr \<lparr>resp_task = req_task request,
                       resp_status = status,
                       resp_mode = req_model request,
                       resp_message = message,
                       resp_steps = steps,
                       resp_data = result_payload,
                       resp_started_at = started_at,
                       resp_completed_at = completed_at\<rparr>,
                  w3)))"

definition execute_task ::
  "world \<Rightarrow> ExecuteRequest \<Rightarrow> (http_error + ExecuteResponse) \<times> world" where
  "execute_task w request = execute_task_with try_body w request"

text \<open>
  The route \<open>POST /execute\<close>: the request is constructed from the body first, and the
  handler runs only on a request that was constructed.
\<close>

definition post_execute ::
  "world \<Rightarrow> request_body \<Rightarrow> (http_error + ExecuteResponse) \<times> world" where
  "post_execute w b =
     (case new_ExecuteRequest b of
        Inl e \<Rightarrow> (Inl e, w)
      | Inr request \<Rightarrow> execute_task w request)"

text \<open>Two worlds to run the handler in: a clock that advances, and one that was set back.\<close>

definition ticking_world :: world where
  "ticking_world = \<lparr>wall = int, reads = 0, log = []\<rparr>"

definition set_back_world :: world where
  "set_back_world = \<lparr>wall = (\<lambda>n. 5 - int n), reads = 0, log = []\<rparr>"

text \<open>A \<open>try\<close> body that raises, to run the \<open>except\<close> branch of the handler.\<close>

definition failing_body :: "ExecuteRequest \<Rightarrow> py_exception + try_result" where
  "failing_body request = Inl (Exception (lit ''browser runtime missing''))"

section \<open>Properties\<close>

subsection \<open>Auxiliary facts\<close>

text \<open>Stripping leaves nothing exactly when every character is whitespace.\<close>

lemma dropWhile_rev_Nil: "dropWhile P (rev (dropWhile P (rev s))) = [] \<longleftrightarrow> list_all P s"
proof
  assume a: "dropWhile P (rev (dropWhile P (rev s))) = []"
  show "list_all P s"
  proof (cases "dropWhile P (rev s)")
    case Nil
    then have "\<forall>x\<in>set (rev s). P x" by (simp add: dropWhile_eq_Nil_conv)
    then show ?thesis by (simp add: list_all_iff)
  next
    case (Cons y ys)
    then have "\<not> P (hd (dropWhile P (rev s)))" by (metis hd_dropWhile list.distinct(1))
    then have ny: "\<not> P y" using Cons by simp
    from a have "\<forall>x\<in>set (rev (dropWhile P (rev s))). P x" by (simp add: dropWhile_eq_Nil_conv)
    then have "P y" using Cons by simp
    with ny show ?thesis by simp
  qed
next
  assume "list_all P s"
  then have e: "dropWhile P (rev s) = []" by (simp add: list_all_iff)
  show "dropWhile P (rev (dropWhile P (rev s))) = []"
    by (simp only: e rev.simps dropWhile.simps)
qed

lemma strip_Nil_iff: "strip s = [] \<longleftrightarrow> list_all isspace s"
  unfolding strip_def lstrip_def rstrip_def by (rule dropWhile_rev_Nil)

lemma validate_task_blank:
  "list_all isspace v \<Longrightarrow>
   validate_task v = Inl (ValueError (lit ''Task description cannot be empty.''))"
  by (simp add: validate_task_def strip_Nil_iff)

lemma validate_task_ok: "\<not> list_all isspace v \<Longrightarrow> validate_task v = Inr v"
  by (simp add: validate_task_def strip_Nil_iff)

lemma new_ExecuteRequest_ok:
  "body_task b = Some t \<Longrightarrow> \<not> list_all isspace t \<Longrightarrow>
   new_ExecuteRequest b =
     Inr \<lparr>req_task = t,
          req_model = (case body_model b of None \<Rightarrow> lit ''claude'' | Some m \<Rightarrow> m),
          req_tools = (case body_tools b of None \<Rightarrow> [] | Some ts \<Rightarrow> ts)\<rparr>"
  by (simp add: new_ExecuteRequest_def validate_task_ok)

lemma new_ExecuteRequest_Inr:
  assumes "new_ExecuteRequest b = Inr request"
  shows "body_task b = Some (req_task request) \<and> \<not> list_all isspace (req_task request) \<and>
         req_model request = (case body_model b of None \<Rightarrow> lit ''claude'' | Some m \<Rightarrow> m) \<and>
         req_tools request = (case body_tools b of None \<Rightarrow> [] | Some ts \<Rightarrow> ts)"
  using assms
  by (auto simp: new_ExecuteRequest_def validate_task_def strip_Nil_iff
           split: option.splits if_splits)

lemma post_execute_ok:
  "new_ExecuteRequest b = Inr request \<Longrightarrow> post_execute w b = execute_task w request"
  by (simp add: post_execute_def)

lemma payload_keys_distinct:
  "lit ''tools_used'' \<noteq> lit ''model''"
  "lit ''tools_used'' \<noteq> lit ''summary''"
  "lit ''model'' \<noteq> lit ''summary''"
  by (simp_all add: lit_def)

lemmas handler_defs =
  execute_task_def execute_task_with_def try_body_def utcnow_def logger_info_def
  logger_exception_def Let_def

lemmas strip_eval = strip_def lstrip_def rstrip_def isspace_def lit_def


subsection \<open>The five steps\<close>

text \<open>
  C1. For every request whose task is non-empty after trimming, \<open>execute_task\<close> returns
  a response whose \<open>steps\<close> are exactly five records, with ids 1, 2, 3, 4, 5 in that
  order, the actions initializing agent, analyzing task, executing actions, gathering
  results and finalizing output, and every status equal to \<open>"completed"\<close>.
\<close>

theorem steps_five_completed:
  assumes "strip (req_task request) \<noteq> []"
  shows "\<exists>resp w'. execute_task w request = (Inr resp, w') \<and>
           length (resp_steps resp) = 5 \<and>
           map step_id (resp_steps resp) = [1, 2, 3, 4, 5] \<and>
           map step_action (resp_steps resp) =
             [lit ''Initializing agent'', lit ''Analyzing task'', lit ''Executing actions'',
              lit ''Gathering results'', lit ''Finalizing output''] \<and>
           list_all (\<lambda>s. step_status s = lit ''completed'') (resp_steps resp)"
  by (simp add: handler_defs)

theorem steps_five_completed_witness:
  "strip (lit ''Summarize the repo'') \<noteq> [] \<and>
   (\<exists>resp w'.
      execute_task ticking_world
        \<lparr>req_task = lit ''Summarize the repo'', req_model = lit ''claude'',
         req_tools = [lit ''search'']\<rparr> = (Inr resp, w') \<and>
      length (resp_steps resp) = 5 \<and>
      map step_id (resp_steps resp) = [1, 2, 3, 4, 5] \<and>
      map step_action (resp_steps resp) =
        [lit ''Initializing agent'', lit ''Analyzing task'', lit ''Executing actions'',
         lit ''Gathering results'', lit ''Finalizing output''] \<and>
      list_all (\<lambda>s. step_status s = lit ''completed'') (resp_steps resp))"
proof -
  have h: "strip (req_task \<lparr>req_task = lit ''Summarize the repo'', req_model = lit ''claude'',
                            req_tools = [lit ''search'']\<rparr>) \<noteq> []"
    by (simp add: strip_eval)
  from h have "strip (lit ''Summarize the repo'') \<noteq> []" by simp
  then show ?thesis
    using steps_five_completed [OF h, of ticking_world] by simp
qed

subsection \<open>Rejection of a blank task\<close>

text \<open>
  C2. For every request whose task is empty or only whitespace, construction of the
  request fails with a \<open>ValidationError\<close>; the route returns that error and leaves the
  world as it was (no log call and no clock read, so the handler never ran and no step
  was constructed), and no response is produced.
\<close>

theorem blank_task_rejected:
  assumes "body_task b = Some t" and "t = [] \<or> list_all isspace t"
  shows "new_ExecuteRequest b =
           Inl (ValidationError
                  [(lit ''task'',
                    Raised (ValueError (lit ''Task description cannot be empty.'')))]) \<and>
         post_execute w b =
           (Inl (ValidationError
                  [(lit ''task'',
                    Raised (ValueError (lit ''Task description cannot be empty.'')))]), w)"
proof -
  from assms(2) have "list_all isspace t" by auto
  then have "validate_task t = Inl (ValueError (lit ''Task description cannot be empty.''))"
    by (rule validate_task_blank)
  with assms(1) show ?thesis
    by (simp add: new_ExecuteRequest_def post_execute_def)
qed

theorem blank_task_rejected_witness:
  "list_all isspace (lit ''   '') \<and>
   new_ExecuteRequest \<lparr>body_task = Some (lit ''   ''), body_model = None, body_tools = None\<rparr> =
     Inl (ValidationError
            [(lit ''task'',
              Raised (ValueError (lit ''Task description cannot be empty.'')))]) \<and>
   post_execute ticking_world
     \<lparr>body_task = Some (lit ''   ''), body_model = None, body_tools = None\<rparr> =
     (Inl (ValidationError
            [(lit ''task'',
              Raised (ValueError (lit ''Task description cannot be empty.'')))]),
      ticking_world) \<and>
   post_execute ticking_world
     \<lparr>body_task = Some [], body_model = None, body_tools = None\<rparr> =
     (Inl (ValidationError
            [(lit ''task'',
              Raised (ValueError (lit ''Task description cannot be empty.'')))]),
      ticking_world)"
proof -
  have h: "list_all isspace (lit ''   '')" by (simp add: isspace_def lit_def)
  show ?thesis
    using h
      blank_task_rejected [of "\<lparr>body_task = Some (lit ''   ''), body_model = None,
                                 body_tools = None\<rparr>" "lit ''   ''" ticking_world]
      blank_task_rejected [of "\<lparr>body_task = Some [], body_model = None,
                                 body_tools = None\<rparr>" "[]" ticking_world]
    by simp
qed

subsection \<open>Echo of the input\<close>

text \<open>
  C3. For every request that passes validation, the response echoes the input:
  its \<open>task\<close> is the task of the request and its \<open>mode\<close> is the model of the request.
\<close>

theorem response_echoes_task_and_model:
  assumes "new_ExecuteRequest b = Inr request"
  shows "\<exists>resp w'. post_execute w b = (Inr resp, w') \<and>
           execute_task w request = (Inr resp, w') \<and>
           resp_task resp = req_task request \<and> resp_mode resp = req_model request"
  using assms by (simp add: post_execute_ok) (simp add: handler_defs)

theorem response_echoes_task_and_model_witness:
  "new_ExecuteRequest
     \<lparr>body_task = Some (lit ''Summarize the repo''), body_model = Some (lit ''claude''),
      body_tools = Some [lit ''search'']\<rparr> =
     Inr \<lparr>req_task = lit ''Summarize the repo'', req_model = lit ''claude'',
          req_tools = [lit ''search'']\<rparr> \<and>
   (\<exists>resp w'.
      post_execute ticking_world
        \<lparr>body_task = Some (lit ''Summarize the repo''), body_model = Some (lit ''claude''),
         body_tools = Some [lit ''search'']\<rparr> = (Inr resp, w') \<and>
      resp_task resp = lit ''Summarize the repo'' \<and> resp_mode resp = lit ''claude'')"
proof -
  have h: "new_ExecuteRequest
     \<lparr>body_task = Some (lit ''Summarize the repo''), body_model = Some (lit ''claude''),
      body_tools = Some [lit ''search'']\<rparr> =
     Inr \<lparr>req_task = lit ''Summarize the repo'', req_model = lit ''claude'',
          req_tools = [lit ''search'']\<rparr>"
    by (simp add: new_ExecuteRequest_def validate_task_def strip_eval)
  show ?thesis
    using h response_echoes_task_and_model [OF h, of ticking_world] by auto
qed

text \<open>
  C4. For every request that passes validation, \<open>data["tools_used"]\<close> of the response
  is the \<open>tools\<close> list of the request, element for element in the same order with
  nothing removed (the empty list included), and \<open>data["model"]\<close> is its model.
\<close>

theorem data_echoes_tools_and_model:
  assumes "new_ExecuteRequest b = Inr request"
  shows "\<exists>resp w'. post_execute w b = (Inr resp, w') \<and>
           execute_task w request = (Inr resp, w') \<and>
           map_of (resp_data resp) (lit ''tools_used'') = Some (PyList (req_tools request)) \<and>
           map_of (resp_data resp) (lit ''model'') = Some (PyStr (req_model request))"
  using assms by (simp add: post_execute_ok) (simp add: handler_defs payload_keys_distinct)

theorem data_echoes_tools_and_model_witness:
  "new_ExecuteRequest
     \<lparr>body_task = Some (lit ''Summarize the repo''), body_model = Some (lit ''claude''),
      body_tools = Some [lit ''search'', lit ''search'']\<rparr> =
     Inr \<lparr>req_task = lit ''Summarize the repo'', req_model = lit ''claude'',
          req_tools = [lit ''search'', lit ''search'']\<rparr> \<and>
   (\<exists>resp w'.
      post_execute ticking_world
        \<lparr>body_task = Some (lit ''Summarize the repo''), body_model = Some (lit ''claude''),
         body_tools = Some [lit ''search'', lit ''search'']\<rparr> = (Inr resp, w') \<and>
      map_of (resp_data resp) (lit ''tools_used'') =
        Some (PyList [lit ''search'', lit ''search'']) \<and>
      map_of (resp_data resp) (lit ''model'') = Some (PyStr (lit ''claude'')))"
proof -
  have h: "new_ExecuteRequest
     \<lparr>body_task = Some (lit ''Summarize the repo''), body_model = Some (lit ''claude''),
      body_tools = Some [lit ''search'', lit ''search'']\<rparr> =
     Inr \<lparr>req_task = lit ''Summarize the repo'', req_model = lit ''claude'',
          req_tools = [lit ''search'', lit ''search'']\<rparr>"
    by (simp add: new_ExecuteRequest_def validate_task_def strip_eval)
  show ?thesis
    using h data_echoes_tools_and_model [OF h, of ticking_world] by auto
qed

subsection \<open>Defaults of the optional fields\<close>

text \<open>
  C5. For every request with a valid task that omits \<open>model\<close>, the model of the
  constructed request is \<open>"claude"\<close> and so is the \<open>mode\<close> of the response; for every
  one that omits \<open>tools\<close>, the tools of the request are the empty list and so is
  \<open>data["tools_used"]\<close> of the response.
\<close>

theorem omitted_fields_take_defaults:
  assumes "body_task b = Some t" and "\<not> list_all isspace t"
  shows "(body_model b = None \<longrightarrow>
            (\<exists>request resp w'. new_ExecuteRequest b = Inr request \<and>
               req_model request = lit ''claude'' \<and>
               post_execute w b = (Inr resp, w') \<and> resp_mode resp = lit ''claude'')) \<and>
         (body_tools b = None \<longrightarrow>
            (\<exists>request resp w'. new_ExecuteRequest b = Inr request \<and>
               req_tools request = [] \<and>
               post_execute w b = (Inr resp, w') \<and>
               map_of (resp_data resp) (lit ''tools_used'') = Some (PyList [])))"
  using assms
  by (simp add: new_ExecuteRequest_ok post_execute_def handler_defs payload_keys_distinct)

theorem omitted_fields_take_defaults_witness:
  "\<not> list_all isspace (lit ''Summarize the repo'') \<and>
   (\<exists>request resp w'.
      new_ExecuteRequest
        \<lparr>body_task = Some (lit ''Summarize the repo''), body_model = None,
         body_tools = None\<rparr> = Inr request \<and>
      req_model request = lit ''claude'' \<and> req_tools request = [] \<and>
      post_execute ticking_world
        \<lparr>body_task = Some (lit ''Summarize the repo''), body_model = None,
         body_tools = None\<rparr> = (Inr resp, w') \<and>
      resp_mode resp = lit ''claude'' \<and>
      map_of (resp_data resp) (lit ''tools_used'') = Some (PyList []))"
proof -
  have h: "\<not> list_all isspace (lit ''Summarize the repo'')"
    by (simp add: isspace_def lit_def)
  show ?thesis
    using h
      omitted_fields_take_defaults
        [of "\<lparr>body_task = Some (lit ''Summarize the repo''), body_model = None,
              body_tools = None\<rparr>" "lit ''Summarize the repo''" ticking_world]
    by auto
qed

subsection \<open>Determinism apart from the timestamps\<close>

text \<open>
  C6. Two runs of \<open>execute_task\<close> on the same request, in any two worlds, both return a
  response, and the two responses have the same \<open>steps\<close>, \<open>message\<close>, \<open>data\<close> and
  \<open>status\<close>: they differ at most in \<open>started_at\<close> and \<open>completed_at\<close>.
\<close>

theorem deterministic_apart_from_timestamps:
  "\<exists>r1 r2 w1' w2'.
     execute_task w1 request = (Inr r1, w1') \<and>
     execute_task w2 request = (Inr r2, w2') \<and>
     resp_steps r1 = resp_steps r2 \<and>
     resp_message r1 = resp_message r2 \<and>
     resp_data r1 = resp_data r2 \<and>
     resp_status r1 = resp_status r2 \<and>
     r2 = r1\<lparr>resp_started_at := resp_started_at r2,
             resp_completed_at := resp_completed_at r2\<rparr>"
  by (simp add: handler_defs)

theorem deterministic_apart_from_timestamps_witness:
  "\<exists>r1 r2 w1' w2'.
     execute_task ticking_world
       \<lparr>req_task = lit ''hi'', req_model = lit ''claude'', req_tools = []\<rparr> = (Inr r1, w1') \<and>
     execute_task set_back_world
       \<lparr>req_task = lit ''hi'', req_model = lit ''claude'', req_tools = []\<rparr> = (Inr r2, w2') \<and>
     resp_steps r1 = resp_steps r2 \<and>
     resp_message r1 = resp_message r2 \<and>
     resp_data r1 = resp_data r2 \<and>
     resp_status r1 = resp_status r2 \<and>
     r2 = r1\<lparr>resp_started_at := resp_started_at r2,
             resp_completed_at := resp_completed_at r2\<rparr>"
  using deterministic_apart_from_timestamps
    [of ticking_world "\<lparr>req_task = lit ''hi'', req_model = lit ''claude'', req_tools = []\<rparr>"
        set_back_world]
  by simp

subsection \<open>The two timestamps\<close>

text \<open>
  C7, as the code has it. \<open>started_at\<close> is the clock read made before the steps are
  constructed and \<open>completed_at\<close> the next read, made after. Whenever that second read
  is not earlier than the first, \<open>completed_at\<close> is greater than or equal to
  \<open>started_at\<close>.
\<close>

theorem completed_not_before_started:
  assumes "wall w (reads w) \<le> wall w (Suc (reads w))"
  shows "\<exists>resp w'. execute_task w request = (Inr resp, w') \<and>
           resp_started_at resp = wall w (reads w) \<and>
           resp_completed_at resp = wall w (Suc (reads w)) \<and>
           resp_started_at resp \<le> resp_completed_at resp"
  using assms by (simp add: handler_defs)

theorem completed_not_before_started_witness:
  "wall ticking_world (reads ticking_world) \<le> wall ticking_world (Suc (reads ticking_world)) \<and>
   (\<exists>resp w'.
      execute_task ticking_world
        \<lparr>req_task = lit ''hi'', req_model = lit ''claude'', req_tools = []\<rparr> = (Inr resp, w') \<and>
      resp_started_at resp = 0 \<and> resp_completed_at resp = 1 \<and>
      resp_started_at resp \<le> resp_completed_at resp)"
proof -
  have h: "wall ticking_world (reads ticking_world)
             \<le> wall ticking_world (Suc (reads ticking_world))"
    by (simp add: ticking_world_def)
  show ?thesis
    using h completed_not_before_started
      [OF h, of "\<lparr>req_task = lit ''hi'', req_model = lit ''claude'', req_tools = []\<rparr>"]
    by (simp add: ticking_world_def)
qed

text \<open>
  Without that condition the order of the timestamps fails: in a world whose wall clock
  is set back between the two reads (it reads 5, then 4), the handler returns a
  response with \<open>completed_at\<close> earlier than \<open>started_at\<close>.
\<close>

theorem completed_before_started_counterexample:
  "\<not> isl (fst (execute_task set_back_world
              \<lparr>req_task = lit ''hi'', req_model = lit ''claude'', req_tools = []\<rparr>)) \<and>
   resp_completed_at (projr (fst (execute_task set_back_world
              \<lparr>req_task = lit ''hi'', req_model = lit ''claude'', req_tools = []\<rparr>))) <
   resp_started_at (projr (fst (execute_task set_back_world
              \<lparr>req_task = lit ''hi'', req_model = lit ''claude'', req_tools = []\<rparr>)))"
  by (simp add: handler_defs set_back_world_def)

subsection \<open>The \<open>except\<close> branch\<close>

text \<open>
  C8. For every request that passed validation, the body of the \<open>try\<close> block does not
  raise, \<open>execute_task\<close> returns a response, and its result is no \<open>HTTPException\<close>
  whatever the code and detail. Were the body to raise an exception, the handler
  would return an \<open>HTTPException\<close> with status 500 and the text of the exception as
  detail, with no response, after logging the failure.
\<close>

theorem internal_error_unreachable:
  assumes "new_ExecuteRequest b = Inr request" and "body request = Inl exc"
  shows "(\<exists>r. try_body request = Inr r) \<and>
         (\<exists>resp w'. execute_task w request = (Inr resp, w') \<and>
                     post_execute w b = (Inr resp, w')) \<and>
         fst (execute_task w request) \<noteq> Inl (HTTPException code detail) \<and>
         fst (execute_task_with body w request) = Inl (HTTPException 500 (str_exc exc)) \<and>
         log (snd (execute_task_with body w request)) =
           log w @
           [\<lparr>log_level = INFO, log_msg = lit ''Received task request'',
             log_extra = [(lit ''task'', PyStr (req_task request)),
                          (lit ''model'', PyStr (req_model request)),
                          (lit ''tools'', PyList (req_tools request))]\<rparr>,
            \<lparr>log_level = ERROR, log_msg = lit ''Task execution failed'', log_extra = []\<rparr>]"
proof -
  have a: "\<exists>r. try_body request = Inr r"
    by (simp add: try_body_def)
  have b: "\<exists>resp w'. execute_task w request = (Inr resp, w') \<and> post_execute w b = (Inr resp, w')"
    using assms(1) by (simp add: post_execute_ok) (simp add: handler_defs)
  have c: "fst (execute_task w request) \<noteq> Inl (HTTPException code detail)"
    using b by auto
  have d: "execute_task_with body w request =
             (Inl (HTTPException 500 (str_exc exc)),
              logger_exception (lit ''Task execution failed'')
                (snd (utcnow (logger_info (lit ''Received task request'')
                   [(lit ''task'', PyStr (req_task request)),
                    (lit ''model'', PyStr (req_model request)),
                    (lit ''tools'', PyList (req_tools request))] w))))"
    using assms(2) by (simp add: execute_task_with_def Let_def split: prod.splits)
  have e: "fst (execute_task_with body w request) = Inl (HTTPException 500 (str_exc exc))"
    by (simp add: d)
  have f: "log (snd (execute_task_with body w request)) =
           log w @
           [\<lparr>log_level = INFO, log_msg = lit ''Received task request'',
             log_extra = [(lit ''task'', PyStr (req_task request)),
                          (lit ''model'', PyStr (req_model request)),
                          (lit ''tools'', PyList (req_tools request))]\<rparr>,
            \<lparr>log_level = ERROR, log_msg = lit ''Task execution failed'', log_extra = []\<rparr>]"
    by (simp add: d logger_exception_def utcnow_def logger_info_def)
  from a b c e f show ?thesis by blast
qed

theorem internal_error_unreachable_witness:
  "new_ExecuteRequest
     \<lparr>body_task = Some (lit ''Summarize the repo''), body_model = None, body_tools = None\<rparr> =
     Inr \<lparr>req_task = lit ''Summarize the repo'', req_model = lit ''claude'', req_tools = []\<rparr> \<and>
   failing_body
     \<lparr>req_task = lit ''Summarize the repo'', req_model = lit ''claude'', req_tools = []\<rparr> =
     Inl (Exception (lit ''browser runtime missing'')) \<and>
   (\<exists>resp w'.
      execute_task ticking_world
        \<lparr>req_task = lit ''Summarize the repo'', req_model = lit ''claude'', req_tools = []\<rparr> =
        (Inr resp, w')) \<and>
   fst (execute_task_with failing_body ticking_world
        \<lparr>req_task = lit ''Summarize the repo'', req_model = lit ''claude'', req_tools = []\<rparr>) =
     Inl (HTTPException 500 (lit ''browser runtime missing''))"
proof -
  have h1: "new_ExecuteRequest
     \<lparr>body_task = Some (lit ''Summarize the repo''), body_model = None, body_tools = None\<rparr> =
     Inr \<lparr>req_task = lit ''Summarize the repo'', req_model = lit ''claude'', req_tools = []\<rparr>"
    by (simp add: new_ExecuteRequest_def validate_task_def strip_eval)
  have h2: "failing_body
     \<lparr>req_task = lit ''Summarize the repo'', req_model = lit ''claude'', req_tools = []\<rparr> =
     Inl (Exception (lit ''browser runtime missing''))"
    by (simp add: failing_body_def)
  note run =
    internal_error_unreachable
      [where body = failing_body and w = ticking_world
         and exc = "Exception (lit ''browser runtime missing'')"
         and code = 500 and detail = "[]", OF h1 h2]
  from run have ok: "\<exists>resp w'.
      execute_task ticking_world
        \<lparr>req_task = lit ''Summarize the repo'', req_model = lit ''claude'', req_tools = []\<rparr> =
        (Inr resp, w')"
    by blast
  from run have err: "fst (execute_task_with failing_body ticking_world
        \<lparr>req_task = lit ''Summarize the repo'', req_model = lit ''claude'', req_tools = []\<rparr>) =
     Inl (HTTPException 500 (lit ''browser runtime missing''))"
    by simp
  from h1 h2 ok err show ?thesis by (intro conjI)
qed

subsection \<open>What validation leaves untouched\<close>

text \<open>
  C9. For every task with at least one character that is not whitespace, the validator
  returns the string it was given, so the \<open>task\<close> of the response keeps its leading and
  trailing whitespace: \<open>"  hi  "\<close> comes back as \<open>"  hi  "\<close>, not as \<open>"hi"\<close>.
\<close>

theorem validator_returns_task_unchanged:
  assumes "\<not> list_all isspace t"
  shows "validate_task t = Inr t \<and>
         (\<exists>resp w'.
            post_execute w \<lparr>body_task = Some t, body_model = m, body_tools = ts\<rparr> =
              (Inr resp, w') \<and>
            resp_task resp = t)"
  using assms
  by (simp add: validate_task_ok new_ExecuteRequest_ok post_execute_def handler_defs)

theorem validator_returns_task_unchanged_witness:
  "\<not> list_all isspace (lit ''  hi  '') \<and>
   strip (lit ''  hi  '') = lit ''hi'' \<and>
   validate_task (lit ''  hi  '') = Inr (lit ''  hi  '') \<and>
   (\<exists>resp w'.
      post_execute ticking_world
        \<lparr>body_task = Some (lit ''  hi  ''), body_model = None, body_tools = None\<rparr> =
        (Inr resp, w') \<and>
      resp_task resp = lit ''  hi  '')"
proof -
  have h: "\<not> list_all isspace (lit ''  hi  '')"
    by (simp add: isspace_def lit_def)
  have s: "strip (lit ''  hi  '') = lit ''hi''"
    by (simp add: strip_eval)
  show ?thesis
    using h s validator_returns_task_unchanged [OF h, of ticking_world None None]
    by simp
qed

text \<open>
  C10. For every string \<open>model\<close>, the empty one included, and every list of strings
  \<open>tools\<close>, with duplicates or empty entries or not, a request with a task that is not
  blank is accepted, and the two values come back unchanged as \<open>mode\<close> and
  \<open>data["tools_used"]\<close>.
\<close>

theorem model_and_tools_not_validated:
  assumes "\<not> list_all isspace t"
  shows "\<exists>request resp w'.
           new_ExecuteRequest \<lparr>body_task = Some t, body_model = Some m, body_tools = Some ts\<rparr> =
             Inr request \<and>
           req_model request = m \<and> req_tools request = ts \<and>
           post_execute w \<lparr>body_task = Some t, body_model = Some m, body_tools = Some ts\<rparr> =
             (Inr resp, w') \<and>
           resp_mode resp = m \<and>
           map_of (resp_data resp) (lit ''tools_used'') = Some (PyList ts)"
  using assms
  by (simp add: new_ExecuteRequest_ok post_execute_def handler_defs payload_keys_distinct)

theorem model_and_tools_not_validated_witness:
  "\<not> list_all isspace (lit ''hi'') \<and>
   (\<exists>request resp w'.
      new_ExecuteRequest
        \<lparr>body_task = Some (lit ''hi''), body_model = Some [],
         body_tools = Some [[], lit ''search'', lit ''search'']\<rparr> = Inr request \<and>
      req_model request = [] \<and> req_tools request = [[], lit ''search'', lit ''search''] \<and>
      post_execute ticking_world
        \<lparr>body_task = Some (lit ''hi''), body_model = Some [],
         body_tools = Some [[], lit ''search'', lit ''search'']\<rparr> = (Inr resp, w') \<and>
      resp_mode resp = [] \<and>
      map_of (resp_data resp) (lit ''tools_used'') =
        Some (PyList [[], lit ''search'', lit ''search'']))"
proof -
  have h: "\<not> list_all isspace (lit ''hi'')"
    by (simp add: isspace_def lit_def)
  show ?thesis
    using h model_and_tools_not_validated
      [OF h, of "[]" "[[], lit ''search'', lit ''search'']" ticking_world]
    by simp
qed

end
